theory Spec2Isabelle
  imports Complex_Main "HOL-Library.Sublist"
begin

section \<open>JavaScript values shared by the two front-ends\<close>

subsection \<open>Strings\<close>

text \<open>
  A JavaScript string is a sequence of UTF-16 code units. A \<^typ>\<open>char\<close> stands for the
  code unit of the same number, so a \<^typ>\<open>string\<close> here is a JavaScript string over
  U+0000 .. U+00FF (ASCII and the Latin-1 supplement). Titles of the event feed are ASCII.
\<close>

definition code_unit :: "char \<Rightarrow> nat" where
  "code_unit c = of_char c"

text \<open>
  \<^verbatim>\<open>String.prototype.toLowerCase\<close> on this range: A-Z and the capital letters
  U+00C0 .. U+00DE (without the multiplication sign U+00D7) move up by 32.
\<close>

definition is_uppercase :: "char \<Rightarrow> bool" where
  "is_uppercase c =
     (let n = code_unit c
      in (65 \<le> n \<and> n \<le> 90) \<or> (192 \<le> n \<and> n \<le> 222 \<and> n \<noteq> 215))"

definition toLowerChar :: "char \<Rightarrow> char" where
  "toLowerChar c = (if is_uppercase c then char_of (code_unit c + 32) else c)"

definition toLowerCase :: "string \<Rightarrow> string" where
  "toLowerCase s = map toLowerChar s"

text \<open>
  The class \<^verbatim>\<open>\s\<close> of a JavaScript regular expression, on this range: tab, line feed,
  vertical tab, form feed, carriage return, space and the no-break space U+00A0.
\<close>

definition is_whitespace :: "char \<Rightarrow> bool" where
  "is_whitespace c = (code_unit c \<in> {9, 10, 11, 12, 13, 32, 160})"

text \<open>
  \<^verbatim>\<open>.replace(/\s+/g, '')\<close>: every maximal run of white space is replaced by the empty
  string.
\<close>

function replace_whitespace_runs :: "string \<Rightarrow> string" where
  "replace_whitespace_runs [] = []"
| "replace_whitespace_runs (c # cs) =
     (if is_whitespace c then replace_whitespace_runs (dropWhile is_whitespace cs)
      else c # replace_whitespace_runs cs)"
  by pat_completeness auto
termination
  by (relation "measure length") (auto simp: less_Suc_eq_le length_dropWhile_le)

text \<open>\<^verbatim>\<open>.replace(/[()]/g, '')\<close> and \<^verbatim>\<open>.replace(/\//g, '')\<close>.\<close>

definition replace_parentheses :: "string \<Rightarrow> string" where
  "replace_parentheses s = filter (\<lambda>c. c \<noteq> CHR ''('' \<and> c \<noteq> CHR '')'') s"

definition replace_slashes :: "string \<Rightarrow> string" where
  "replace_slashes s = filter (\<lambda>c. c \<noteq> CHR ''/'') s"

text \<open>The decimal rendering of a natural number, as \<^verbatim>\<open>String(n)\<close> gives it.\<close>

fun digits :: "nat \<Rightarrow> string" where
  "digits n =
     (if n < 10 then [char_of (48 + n)] else digits (n div 10) @ [char_of (48 + n mod 10)])"

declare digits.simps [simp del]

subsection \<open>Exceptions\<close>

text \<open>
  A raised exception is kept with its class and its \<^verbatim>\<open>message\<close>, which is all the
  failure path of the component reads.
\<close>

datatype js_error =
    Error (message: string)
  | RangeError (message: string)
  | TypeError (message: string)
  | SyntaxError (message: string)

subsection \<open>Dates and their display formats\<close>

text \<open>
  A \<^verbatim>\<open>Date\<close> object is either the Invalid Date or an instant: \<open>getTime\<close> is the
  number of milliseconds since the epoch, the other fields are the calendar fields of the
  runtime's time zone that the formatter reads (\<open>getFullYear()\<close>, \<open>getMonth() + 1\<close>,
  \<open>getDate()\<close>, \<open>getHours()\<close>, \<open>getMinutes()\<close>). Parsing a string into a
  \<^verbatim>\<open>Date\<close> belongs to the runtime: the \<^verbatim>\<open>date\<close> string of a geometry entry is
  represented by the value \<^verbatim>\<open>new Date(date)\<close> denotes, which is the only use the
  component makes of it. An unparseable string is the Invalid Date.
\<close>

record calendar_time =
  getTime :: int
  fullYear :: int
  monthOfYear :: nat
  dayOfMonth :: nat
  hours :: nat
  minutes :: nat

datatype js_date = InvalidDate | ValidDate calendar_time

text \<open>
  The library function \<^verbatim>\<open>format\<close> of date-fns, for the two patterns the component
  uses. It raises \<^verbatim>\<open>RangeError\<close> on the Invalid Date. The token \<^verbatim>\<open>yyyy\<close> prints
  the year of the era (year \<open>y \<le> 0\<close> is \<open>1 - y\<close>), and every numeric token pads
  with zeros on the left up to its width.
\<close>

definition addLeadingZeros :: "nat \<Rightarrow> nat \<Rightarrow> string" where
  "addLeadingZeros n targetLength =
     replicate (targetLength - length (digits n)) CHR ''0'' @ digits n"

definition year_of_era :: "int \<Rightarrow> nat" where
  "year_of_era y = (if y > 0 then nat y else nat (1 - y))"

definition format_yyyy_MM_dd :: "js_date \<Rightarrow> js_error + string" where
  "format_yyyy_MM_dd d =
     (case d of
        InvalidDate \<Rightarrow> Inl (RangeError ''Invalid time value'')
      | ValidDate t \<Rightarrow>
          Inr (addLeadingZeros (year_of_era (fullYear t)) 4 @ ''-''
               @ addLeadingZeros (monthOfYear t) 2 @ ''-''
               @ addLeadingZeros (dayOfMonth t) 2))"

definition format_yyyy_MM_dd_HH_mm :: "js_date \<Rightarrow> js_error + string" where
  "format_yyyy_MM_dd_HH_mm d =
     (case d of
        InvalidDate \<Rightarrow> Inl (RangeError ''Invalid time value'')
      | ValidDate t \<Rightarrow>
          Inr (addLeadingZeros (year_of_era (fullYear t)) 4 @ ''-''
               @ addLeadingZeros (monthOfYear t) 2 @ ''-''
               @ addLeadingZeros (dayOfMonth t) 2 @ '' ''
               @ addLeadingZeros (hours t) 2 @ '':''
               @ addLeadingZeros (minutes t) 2))"

section \<open>The event map (NasaMap)\<close>

subsection \<open>Category keys and colours\<close>

definition normalizeCategoryKey :: "string \<Rightarrow> string" where
  "normalizeCategoryKey title =
     replace_slashes (replace_parentheses (replace_whitespace_runs (toLowerCase title)))"

definition CATEGORY_COLORS :: "(string \<times> string) list" where
  "CATEGORY_COLORS =
     [(''wildfires'', ''#ff7b7b''),
      (''severeStorms'', ''#ffd166''),
      (''volcanoes'', ''#f94144''),
      (''seaLakeIce'', ''#90e0ef''),
      (''snow'', ''#a8dadc''),
      (''dustHaze'', ''#e9c46a''),
      (''earthquakes'', ''#f3722c''),
      (''floods'', ''#43aa8b''),
      (''manmade'', ''#bdb2ff''),
      (''waterColor'', ''#48cae4''),
      (''landslides'', ''#8ecae6'')]"

text \<open>
  \<^verbatim>\<open>CATEGORY_COLORS[categoryKey] || '#7aa2ff'\<close>. The palette is an object literal, so a
  key that is none of its own properties is still looked up in \<^verbatim>\<open>Object.prototype\<close>:
  for the names below the lookup yields a function or an object, which is truthy, and the
  default is not taken.
\<close>

datatype js_value = Str string | ObjectPrototypeMember string

definition object_prototype_names :: "string list" where
  "object_prototype_names =
     [''constructor'', ''__defineGetter__'', ''__defineSetter__'', ''hasOwnProperty'',
      ''__lookupGetter__'', ''__lookupSetter__'', ''isPrototypeOf'',
      ''propertyIsEnumerable'', ''toString'', ''valueOf'', ''__proto__'',
      ''toLocaleString'']"

definition category_color :: "string \<Rightarrow> js_value" where
  "category_color categoryKey =
     (case map_of CATEGORY_COLORS categoryKey of
        Some c \<Rightarrow> if c = [] then Str ''#7aa2ff'' else Str c
      | None \<Rightarrow>
          if categoryKey \<in> set object_prototype_names
          then ObjectPrototypeMember categoryKey
          else Str ''#7aa2ff'')"

subsection \<open>The feed's records\<close>

datatype geometry_type = Point | Polygon

text \<open>
  \<^verbatim>\<open>coordinates: number[] | number[][][]\<close>; the response is untyped JSON, so the field
  may also be absent or hold something that is not an array.
\<close>

datatype coords = NumberArray "real list" | RingArray "real list list list" | NotAnArray

record EonetGeometry =
  g_date :: js_date
  g_type :: geometry_type
  g_coordinates :: coords

record EonetCategoryRef =
  cat_id :: int
  cat_title :: string

record EonetEvent =
  ev_id :: string
  ev_title :: string
  categories :: "EonetCategoryRef list"
  geometry :: "EonetGeometry list"

subsection \<open>The features handed to the map\<close>

record feature_properties =
  p_id :: string
  p_title :: string
  category :: string
  categoryKey :: string
  color :: js_value
  latestDate :: string

text \<open>
  A GeoJSON feature; its constant members (\<^verbatim>\<open>type: 'Feature'\<close> and the geometry's
  \<^verbatim>\<open>type: 'Point'\<close>) are left out.
\<close>

record feature =
  f_coordinates :: coords
  f_properties :: feature_properties

subsection \<open>The normaliser: the callback of \<^verbatim>\<open>events.flatMap\<close>\<close>

definition isArray :: "coords \<Rightarrow> bool" where
  "isArray c = (case c of NotAnArray \<Rightarrow> False | _ \<Rightarrow> True)"

text \<open>\<^verbatim>\<open>[...ev.geometry].reverse().find(g => g.type === 'Point')\<close>\<close>

definition lastPoint :: "EonetEvent \<Rightarrow> EonetGeometry option" where
  "lastPoint ev = find (\<lambda>g. g_type g = Point) (rev (geometry ev))"

text \<open>\<^verbatim>\<open>ev.categories[0]?.title || 'Unknown'\<close>: the empty title is falsy.\<close>

definition primary_category :: "EonetEvent \<Rightarrow> string" where
  "primary_category ev =
     (case categories ev of
        [] \<Rightarrow> ''Unknown''
      | c # _ \<Rightarrow> if cat_title c = [] then ''Unknown'' else cat_title c)"

definition normalizeEvent :: "EonetEvent \<Rightarrow> js_error + feature list" where
  "normalizeEvent ev =
     (case lastPoint ev of
        None \<Rightarrow> Inr []
      | Some lp \<Rightarrow>
          if \<not> isArray (g_coordinates lp) then Inr []
          else
            let cat = primary_category ev;
                key = normalizeCategoryKey cat
            in (case format_yyyy_MM_dd_HH_mm (g_date lp) of
                  Inl e \<Rightarrow> Inl e
                | Inr shown \<Rightarrow>
                    Inr [\<lparr>f_coordinates = g_coordinates lp,
                          f_properties =
                            \<lparr>p_id = ev_id ev,
                             p_title = ev_title ev,
                             category = cat,
                             categoryKey = key,
                             color = category_color key,
                             latestDate = shown\<rparr>\<rparr>]))"

text \<open>
  \<^verbatim>\<open>Array.prototype.flatMap\<close> with a callback that may raise: the events are visited in
  order, the arrays the callback returns are concatenated, and the first exception ends
  the whole call.
\<close>

fun flatMap :: "('a \<Rightarrow> js_error + 'b list) \<Rightarrow> 'a list \<Rightarrow> js_error + 'b list" where
  "flatMap f [] = Inr []"
| "flatMap f (x # xs) =
     (case f x of
        Inl e \<Rightarrow> Inl e
      | Inr ys \<Rightarrow> (case flatMap f xs of Inl e \<Rightarrow> Inl e | Inr zs \<Rightarrow> Inr (ys @ zs)))"

definition normalizeEvents :: "EonetEvent list \<Rightarrow> js_error + feature list" where
  "normalizeEvents events = flatMap normalizeEvent events"

subsection \<open>The query builder\<close>

text \<open>
  \<^verbatim>\<open>URLSearchParams\<close>: an ordered list of name-value pairs. \<^verbatim>\<open>set\<close> overwrites the
  first pair of that name and removes the others, or appends a new pair.
\<close>

type_synonym URLSearchParams = "(string \<times> string) list"

fun params_set :: "string \<Rightarrow> string \<Rightarrow> URLSearchParams \<Rightarrow> URLSearchParams" where
  "params_set name v [] = [(name, v)]"
| "params_set name v ((k, w) # ps) =
     (if k = name then (name, v) # filter (\<lambda>p. fst p \<noteq> name) ps
      else (k, w) # params_set name v ps)"

text \<open>
  \<^verbatim>\<open>toString\<close> serialises the pairs as \<^verbatim>\<open>application/x-www-form-urlencoded\<close>: letters,
  digits and \<^verbatim>\<open>* - . _\<close> stay, a space becomes \<^verbatim>\<open>+\<close>, and every other code unit is
  written as the percent-encoded bytes of its UTF-8 form.
\<close>

definition hex_digit :: "nat \<Rightarrow> char" where
  "hex_digit n = (if n < 10 then char_of (48 + n) else char_of (55 + n))"

definition percent_encode_byte :: "nat \<Rightarrow> string" where
  "percent_encode_byte b = [CHR ''%'', hex_digit (b div 16), hex_digit (b mod 16)]"

definition is_alphanumeric :: "char \<Rightarrow> bool" where
  "is_alphanumeric c =
     (let n = code_unit c
      in (48 \<le> n \<and> n \<le> 57) \<or> (65 \<le> n \<and> n \<le> 90) \<or> (97 \<le> n \<and> n \<le> 122))"

definition urlencode_char :: "char \<Rightarrow> string" where
  "urlencode_char c =
     (let n = code_unit c
      in if n = 32 then ''+''
         else if is_alphanumeric c \<or> c \<in> set ''*-._'' then [c]
         else if n < 128 then percent_encode_byte n
         else percent_encode_byte (192 + n div 64) @ percent_encode_byte (128 + n mod 64))"

definition urlencode :: "string \<Rightarrow> string" where
  "urlencode s = concat (map urlencode_char s)"

fun join_params :: "string list \<Rightarrow> string" where
  "join_params [] = []"
| "join_params [p] = p"
| "join_params (p # q # ps) = p @ ''&'' @ join_params (q # ps)"

definition params_toString :: "URLSearchParams \<Rightarrow> string" where
  "params_toString ps = join_params (map (\<lambda>(k, v). urlencode k @ ''='' @ urlencode v) ps)"

definition EONET_BASE :: string where
  "EONET_BASE = ''https://eonet.gsfc.nasa.gov/api/v3''"

text \<open>
  The filter state of the component: \<^verbatim>\<open>start\<close>, \<^verbatim>\<open>end\<close> and \<^verbatim>\<open>selectedCategory\<close>.
  The status \<^verbatim>\<open>open\<close> and the limit 250 are constants of the builder.
\<close>

record FilterState =
  range_start :: js_date
  range_end :: js_date
  selectedCategory :: string

text \<open>
  The parameters of \<^verbatim>\<open>queryUrl\<close>. The guards \<^verbatim>\<open>if (start)\<close> and \<^verbatim>\<open>if (end)\<close> test
  objects, which are always truthy, the Invalid Date included; \<^verbatim>\<open>if (selectedCategory)\<close>
  tests a string, which is truthy unless empty. Formatting the Invalid Date raises.
\<close>

definition query_params :: "FilterState \<Rightarrow> js_error + URLSearchParams" where
  "query_params st =
     (let params = params_set ''status'' ''open'' []
      in case format_yyyy_MM_dd (range_start st) of
           Inl e \<Rightarrow> Inl e
         | Inr s \<Rightarrow>
             let params = params_set ''start'' s params
             in (case format_yyyy_MM_dd (range_end st) of
                   Inl e \<Rightarrow> Inl e
                 | Inr e \<Rightarrow>
                     let params = params_set ''end'' e params;
                         params = (if selectedCategory st \<noteq> []
                                   then params_set ''category'' (selectedCategory st) params
                                   else params)
                     in Inr (params_set ''limit'' ''250'' params)))"

definition queryUrl :: "FilterState \<Rightarrow> js_error + string" where
  "queryUrl st =
     (case query_params st of
        Inl e \<Rightarrow> Inl e
      | Inr params \<Rightarrow> Inr (EONET_BASE @ ''/events?'' @ params_toString params))"

subsection \<open>The map widget, as far as the component drives it\<close>

text \<open>
  \<^verbatim>\<open>LngLatBounds\<close> of the map library: empty when created, and \<^verbatim>\<open>extend\<close> with a
  position \<^verbatim>\<open>[lng, lat]\<close> moves the south-west corner down to and the north-east corner
  up to the position. Building the position raises when the latitude is outside
  \<open>[-90, 90]\<close>. The model follows the library on the pairs \<^verbatim>\<open>[number, number]\<close> that the
  cast in the source names. What the library does with a value of another shape depends
  on the shape and on the library's version; the model lets all of them raise, and the
  properties of the viewport below are stated for positions only.
\<close>

datatype LngLatBounds =
    EmptyBounds
  | Bounds (west: real) (south: real) (east: real) (north: real)

fun LngLatBounds_extend :: "LngLatBounds \<Rightarrow> coords \<Rightarrow> js_error + LngLatBounds" where
  "LngLatBounds_extend b (NumberArray [lng, lat]) =
     (if lat > 90 \<or> lat < - 90
      then Inl (Error ''Invalid LngLat latitude value: must be between -90 and 90'')
      else (case b of
              EmptyBounds \<Rightarrow> Inr (Bounds lng lat lng lat)
            | Bounds w s e n \<Rightarrow> Inr (Bounds (min lng w) (min lat s) (max lng e) (max lat n))))"
| "LngLatBounds_extend b other = Inl (Error ''LngLatLike argument must be specified as [lng, lat]'')"

text \<open>\<^verbatim>\<open>for (const f of features) bounds.extend(f.geometry.coordinates)\<close>\<close>

fun extend_all :: "LngLatBounds \<Rightarrow> feature list \<Rightarrow> js_error + LngLatBounds" where
  "extend_all b [] = Inr b"
| "extend_all b (f # fs) =
     (case LngLatBounds_extend b (f_coordinates f) of
        Inl e \<Rightarrow> Inl e
      | Inr b' \<Rightarrow> extend_all b' fs)"

text \<open>
  What the component can observe of the widget: the data of the source
  \<^verbatim>\<open>eonet-events\<close>, and the calls of \<^verbatim>\<open>fitBounds\<close> made so far, in order, each with its
  bounds and its options \<^verbatim>\<open>padding\<close> and \<^verbatim>\<open>duration\<close> (the length of the animation in
  milliseconds).
\<close>

record fit_request =
  fit_bounds :: LngLatBounds
  fit_padding :: nat
  fit_duration :: nat

record map_widget =
  source_data :: "feature list"
  fit_requests :: "fit_request list"

subsection \<open>Fetching and presenting\<close>

text \<open>
  What one \<^verbatim>\<open>fetch\<close> meets: the request is rejected (the network is unreachable, or the
  request was aborted), or a response arrives with a status and a body that is JSON or
  not. A body that is JSON is taken to have the shape \<^verbatim>\<open>EventsResponse\<close>.
\<close>

datatype response_body = NotJson js_error | Json "EonetEvent list"

datatype fetch_outcome = Rejected js_error | Response nat response_body

definition fetchJson :: "fetch_outcome \<Rightarrow> js_error + EonetEvent list" where
  "fetchJson outcome =
     (case outcome of
        Rejected e \<Rightarrow> Inl e
      | Response status body \<Rightarrow>
          if \<not> (200 \<le> status \<and> status \<le> 299) then Inl (Error (''HTTP '' @ digits status))
          else (case body of NotJson e \<Rightarrow> Inl e | Json events \<Rightarrow> Inr events))"

record component_state =
  mapRef :: "map_widget option"
  loading :: bool
  error :: "string option"
  eventCount :: nat

text \<open>
  The handler of \<^verbatim>\<open>.then\<close>. It returns the state it leaves and the exception it raised,
  if any: an exception leaves the updates made before it in place.
\<close>

definition on_fulfilled ::
  "component_state \<Rightarrow> map_widget \<Rightarrow> EonetEvent list \<Rightarrow> component_state \<times> js_error option" where
  "on_fulfilled st m events =
     (case normalizeEvents events of
        Inl e \<Rightarrow> (st, Some e)
      | Inr features \<Rightarrow>
          let m1 = m\<lparr>source_data := features\<rparr>;
              st1 = st\<lparr>mapRef := Some m1, eventCount := length features\<rparr>
          in if length features > 0
             then (case extend_all EmptyBounds features of
                     Inl e \<Rightarrow> (st1, Some e)
                   | Inr bounds \<Rightarrow>
                       (st1\<lparr>mapRef := Some
                               (m1\<lparr>fit_requests := fit_requests m1 @
                                      [\<lparr>fit_bounds = bounds, fit_padding = 40,
                                        fit_duration = 800\<rparr>]\<rparr>)\<rparr>,
                        None))
             else (st1, None))"

text \<open>The handler of \<^verbatim>\<open>.catch\<close>: \<^verbatim>\<open>setError(err.message || 'Falha ao carregar dados')\<close>\<close>

definition on_rejected :: "component_state \<Rightarrow> js_error \<Rightarrow> component_state" where
  "on_rejected st err =
     st\<lparr>error := Some (if message err = [] then ''Falha ao carregar dados'' else message err)\<rparr>"

text \<open>
  One run of the effect that loads the events, from its start to the handler of
  \<^verbatim>\<open>.finally\<close>, for a request that is not superseded. Without a map the effect returns
  at once.
\<close>

definition load_events :: "component_state \<Rightarrow> fetch_outcome \<Rightarrow> component_state" where
  "load_events st outcome =
     (case mapRef st of
        None \<Rightarrow> st
      | Some m \<Rightarrow>
          let st0 = st\<lparr>loading := True, error := None\<rparr>;
              st1 = (case fetchJson outcome of
                       Inl err \<Rightarrow> on_rejected st0 err
                     | Inr events \<Rightarrow>
                         (case on_fulfilled st0 m events of
                            (st', None) \<Rightarrow> st'
                          | (st', Some err) \<Rightarrow> on_rejected st' err))
          in st1\<lparr>loading := False\<rparr>)"

section \<open>The imagery map (NasaGibsMap)\<close>

definition GIBS_ENDPOINT :: string where
  "GIBS_ENDPOINT = ''https://gibs.earthdata.nasa.gov/wmts/epsg3857/best/wmts.cgi''"

definition buildTileUrl :: "string \<Rightarrow> string \<Rightarrow> string" where
  "buildTileUrl layer date =
     GIBS_ENDPOINT @ ''?service=WMTS&request=GetTile&version=1.0.0&layer='' @ layer
     @ ''&style=default&tilematrixset=GoogleMapsCompatible_Level&format=image%2Fjpeg&time=''
     @ date @ ''&tilematrix={z}&tilerow={y}&tilecol={x}''"

section \<open>Notions of the specification\<close>

text \<open>
  Two titles that differ only in case, white space, parentheses or slashes: one is turned
  into the other by inserting and deleting such characters and by changing the case of
  letters.
\<close>

definition stripped_char :: "char \<Rightarrow> bool" where
  "stripped_char c = (is_whitespace c \<or> c = CHR ''('' \<or> c = CHR '')'' \<or> c = CHR ''/'')"



text \<open>
  The most recent Point entry of a geometry sequence, by date: a Point-typed entry that
  no Point-typed entry of the sequence is later than. Dates compare by their instants, and
  the Invalid Date compares with nothing (its time value is NaN).
\<close>

definition not_later :: "js_date \<Rightarrow> js_date \<Rightarrow> bool" where
  "not_later a b =
     (case (a, b) of
        (ValidDate s, ValidDate t) \<Rightarrow> getTime s \<le> getTime t
      | _ \<Rightarrow> False)"

definition most_recent_points :: "EonetGeometry list \<Rightarrow> EonetGeometry list" where
  "most_recent_points gs =
     filter (\<lambda>g. g_type g = Point \<and>
                 list_all (\<lambda>p. g_type p = Point \<longrightarrow> not_later (g_date p) (g_date g)) gs) gs"

definition chronological :: "EonetGeometry list \<Rightarrow> bool" where
  "chronological gs = sorted_wrt (\<lambda>a b. not_later (g_date a) (g_date b)) gs"

text \<open>
  An event is representable when the normaliser finds a Point entry whose coordinates are
  an array; the date of that entry is unparseable when it is the Invalid Date. The
  observations below read the identifiers and the coordinates off a result of the
  normaliser, when it returned one.
\<close>

definition representable :: "EonetEvent \<Rightarrow> bool" where
  "representable ev =
     (case lastPoint ev of None \<Rightarrow> False | Some lp \<Rightarrow> isArray (g_coordinates lp))"

definition date_unparseable :: "EonetEvent \<Rightarrow> bool" where
  "date_unparseable ev =
     (case lastPoint ev of
        None \<Rightarrow> False
      | Some lp \<Rightarrow> isArray (g_coordinates lp) \<and> g_date lp = InvalidDate)"

definition shown_ids :: "js_error + feature list \<Rightarrow> string list option" where
  "shown_ids r = (case r of Inl _ \<Rightarrow> None | Inr fs \<Rightarrow> Some (map (\<lambda>f. p_id (f_properties f)) fs))"

definition shown_coordinates :: "js_error + feature list \<Rightarrow> coords list option" where
  "shown_coordinates r = (case r of Inl _ \<Rightarrow> None | Inr fs \<Rightarrow> Some (map f_coordinates fs))"

text \<open>
  A fetch fails in transport when it is rejected or its status is not one of 200 .. 299,
  and in parsing when its body is not JSON.
\<close>

definition transport_or_parse_failure :: "fetch_outcome \<Rightarrow> bool" where
  "transport_or_parse_failure outcome =
     (case outcome of
        Rejected _ \<Rightarrow> True
      | Response status body \<Rightarrow>
          \<not> (200 \<le> status \<and> status \<le> 299)
          \<or> (case body of NotJson _ \<Rightarrow> True | Json _ \<Rightarrow> False))"



definition latitude :: "coords \<Rightarrow> real" where
  "latitude c = (case c of NumberArray (_ # lat # _) \<Rightarrow> lat | _ \<Rightarrow> 0)"


section \<open>Sample data\<close>

text \<open>
  Three instants of January 2024 at midnight, as a runtime in the UTC zone presents them,
  and five events: the scenario of the specification (two Point entries in chronological
  order), the same entries in the opposite order, an event with a Polygon entry only, one
  whose Point entry has no coordinates, and one whose Point entry has an unparseable date.
  Then the filter state of the specification's scenario and the same state with the
  category 8 selected, the features of the first two events, and a component whose map
  shows the first of them.
\<close>

definition jan_01 :: js_date where
  "jan_01 = ValidDate \<lparr>getTime = 1704067200000, fullYear = 2024, monthOfYear = 1,
                        dayOfMonth = 1, hours = 0, minutes = 0\<rparr>"

definition jan_15 :: js_date where
  "jan_15 = ValidDate \<lparr>getTime = 1705276800000, fullYear = 2024, monthOfYear = 1,
                        dayOfMonth = 15, hours = 0, minutes = 0\<rparr>"

definition jan_31 :: js_date where
  "jan_31 = ValidDate \<lparr>getTime = 1706659200000, fullYear = 2024, monthOfYear = 1,
                        dayOfMonth = 31, hours = 0, minutes = 0\<rparr>"

definition point_jan_01 :: EonetGeometry where
  "point_jan_01 = \<lparr>g_date = jan_01, g_type = Point, g_coordinates = NumberArray [10, 20]\<rparr>"

definition point_jan_15 :: EonetGeometry where
  "point_jan_15 = \<lparr>g_date = jan_15, g_type = Point, g_coordinates = NumberArray [11, 21]\<rparr>"

definition scenario_event :: EonetEvent where
  "scenario_event =
     \<lparr>ev_id = ''EONET_1'', ev_title = ''Tropical Storm'',
      categories = [\<lparr>cat_id = 10, cat_title = ''Severe Storms''\<rparr>],
      geometry = [point_jan_01, point_jan_15]\<rparr>"

definition unsorted_event :: EonetEvent where
  "unsorted_event =
     \<lparr>ev_id = ''EONET_2'', ev_title = ''Tropical Storm'',
      categories = [\<lparr>cat_id = 10, cat_title = ''Severe Storms''\<rparr>],
      geometry = [point_jan_15, point_jan_01]\<rparr>"

definition polygon_event :: EonetEvent where
  "polygon_event =
     \<lparr>ev_id = ''EONET_3'', ev_title = ''Wildfire perimeter'',
      categories = [\<lparr>cat_id = 8, cat_title = ''Wildfires''\<rparr>],
      geometry = [\<lparr>g_date = jan_01, g_type = Polygon,
                   g_coordinates = RingArray [[[0, 0], [1, 0], [1, 1], [0, 0]]]\<rparr>]\<rparr>"

definition no_coordinates_event :: EonetEvent where
  "no_coordinates_event =
     \<lparr>ev_id = ''EONET_4'', ev_title = ''Flood'',
      categories = [\<lparr>cat_id = 9, cat_title = ''Floods''\<rparr>],
      geometry = [\<lparr>g_date = jan_01, g_type = Point, g_coordinates = NotAnArray\<rparr>]\<rparr>"

definition bad_date_event :: EonetEvent where
  "bad_date_event =
     \<lparr>ev_id = ''EONET_5'', ev_title = ''Volcano'',
      categories = [\<lparr>cat_id = 12, cat_title = ''Volcanoes''\<rparr>],
      geometry = [\<lparr>g_date = InvalidDate, g_type = Point,
                   g_coordinates = NumberArray [5, 6]\<rparr>]\<rparr>"

definition scenario_feature :: feature where
  "scenario_feature =
     \<lparr>f_coordinates = NumberArray [11, 21],
      f_properties =
        \<lparr>p_id = ''EONET_1'', p_title = ''Tropical Storm'', category = ''Severe Storms'',
         categoryKey = ''severestorms'', color = Str ''#7aa2ff'',
         latestDate = ''2024-01-15 00:00''\<rparr>\<rparr>"

definition scenario_filter :: FilterState where
  "scenario_filter = \<lparr>range_start = jan_01, range_end = jan_31, selectedCategory = []\<rparr>"

definition wildfire_filter :: FilterState where
  "wildfire_filter = \<lparr>range_start = jan_01, range_end = jan_31, selectedCategory = ''8''\<rparr>"


definition showing_scenario :: component_state where
  "showing_scenario =
     \<lparr>mapRef = Some \<lparr>source_data = [scenario_feature], fit_requests = []\<rparr>, loading = False,
      error = None, eventCount = 1\<rparr>"

section \<open>Properties of the category key\<close>

lemma code_unit_lt: "code_unit c < 256"
  unfolding code_unit_def by (cases c) simp

lemma code_unit_char_of: "n < 256 \<Longrightarrow> code_unit (char_of n) = n"
  unfolding code_unit_def by simp

lemma char_of_code_unit: "char_of (code_unit c) = c"
  unfolding code_unit_def by simp

lemma replace_whitespace_runs_filter:
  "replace_whitespace_runs s = filter (\<lambda>c. \<not> is_whitespace c) s"
proof (induction s rule: replace_whitespace_runs.induct)
  case 1
  show ?case by simp
next
  case (2 c cs)
  show ?case
  proof (cases "is_whitespace c")
    case True
    have "filter (\<lambda>c. \<not> is_whitespace c) (takeWhile is_whitespace cs) = []"
      by (simp add: filter_empty_conv) (meson set_takeWhileD)
    then have "filter (\<lambda>c. \<not> is_whitespace c) (dropWhile is_whitespace cs)
        = filter (\<lambda>c. \<not> is_whitespace c) cs"
      by (metis append_Nil filter_append takeWhile_dropWhile_id)
    with True 2 show ?thesis by simp
  next
    case False
    with 2 show ?thesis by simp
  qed
qed

lemma is_uppercase_toLowerChar: "\<not> is_uppercase (toLowerChar c)"
  using code_unit_lt[of c]
  by (auto simp add: toLowerChar_def is_uppercase_def Let_def code_unit_char_of)




lemma normalizeCategoryKey_filter:
  "normalizeCategoryKey s = filter (\<lambda>c. \<not> stripped_char c) (map toLowerChar s)"
  by (auto simp: normalizeCategoryKey_def replace_slashes_def replace_parentheses_def
      replace_whitespace_runs_filter toLowerCase_def stripped_char_def intro: filter_cong)






lemma normalizeCategoryKey_lowercase: "c \<in> set (normalizeCategoryKey s) \<Longrightarrow> \<not> is_uppercase c"
  by (auto simp: normalizeCategoryKey_filter is_uppercase_toLowerChar)




section \<open>Properties of the normaliser\<close>

lemma scenario_normalized: "normalizeEvent scenario_event = Inr [scenario_feature]"
  by code_simp

lemma find_rev_snoc:
  "find P (rev (xs @ [x])) = (if P x then Some x else find P (rev xs))"
  by simp

lemma find_rev_None: "find P (rev xs) = None \<longleftrightarrow> (\<forall>x\<in>set xs. \<not> P x)"
  by (auto simp: find_None_iff)

lemma find_rev_Some:
  "find P (rev xs) = Some g \<longleftrightarrow>
     (\<exists>pre post. xs = pre @ g # post \<and> P g \<and> (\<forall>p\<in>set post. \<not> P p))"
proof (induction xs rule: rev_induct)
  case Nil
  show ?case by simp
next
  case (snoc x xs)
  show ?case
  proof (cases "P x")
    case True
    have "(\<exists>pre post. xs @ [x] = pre @ g # post \<and> P g \<and> (\<forall>p\<in>set post. \<not> P p)) \<longleftrightarrow> g = x"
    proof
      assume "\<exists>pre post. xs @ [x] = pre @ g # post \<and> P g \<and> (\<forall>p\<in>set post. \<not> P p)"
      then obtain pre post where d: "xs @ [x] = pre @ g # post" "\<forall>p\<in>set post. \<not> P p"
        by blast
      show "g = x"
      proof (cases post rule: rev_cases)
        case Nil
        with d show ?thesis by simp
      next
        case (snoc post' y)
        with d have "y = x" by simp
        with snoc d True show ?thesis by simp
      qed
    next
      assume "g = x"
      with True have "xs @ [x] = xs @ g # [] \<and> P g \<and> (\<forall>p\<in>set []. \<not> P p)" by simp
      then show "\<exists>pre post. xs @ [x] = pre @ g # post \<and> P g \<and> (\<forall>p\<in>set post. \<not> P p)"
        by blast
    qed
    with True show ?thesis by auto
  next
    case False
    have "(\<exists>pre post. xs @ [x] = pre @ g # post \<and> P g \<and> (\<forall>p\<in>set post. \<not> P p)) \<longleftrightarrow>
          (\<exists>pre post. xs = pre @ g # post \<and> P g \<and> (\<forall>p\<in>set post. \<not> P p))"
    proof
      assume "\<exists>pre post. xs @ [x] = pre @ g # post \<and> P g \<and> (\<forall>p\<in>set post. \<not> P p)"
      then obtain pre post where d: "xs @ [x] = pre @ g # post" "P g" "\<forall>p\<in>set post. \<not> P p"
        by blast
      show "\<exists>pre post. xs = pre @ g # post \<and> P g \<and> (\<forall>p\<in>set post. \<not> P p)"
      proof (cases post rule: rev_cases)
        case Nil
        with d False show ?thesis by simp
      next
        case (snoc post' y)
        with d have "xs = pre @ g # post'" "\<forall>p\<in>set post'. \<not> P p" by simp_all
        with d(2) show ?thesis by blast
      qed
    next
      assume "\<exists>pre post. xs = pre @ g # post \<and> P g \<and> (\<forall>p\<in>set post. \<not> P p)"
      then obtain pre post where d: "xs = pre @ g # post" "P g" "\<forall>p\<in>set post. \<not> P p"
        by blast
      with False have "xs @ [x] = pre @ g # (post @ [x]) \<and> P g \<and> (\<forall>p\<in>set (post @ [x]). \<not> P p)"
        by simp
      then show "\<exists>pre post. xs @ [x] = pre @ g # post \<and> P g \<and> (\<forall>p\<in>set post. \<not> P p)"
        by blast
    qed
    with False snoc.IH show ?thesis by simp
  qed
qed

lemma lastPoint_None: "lastPoint ev = None \<longleftrightarrow> (\<forall>g\<in>set (geometry ev). g_type g \<noteq> Point)"
  unfolding lastPoint_def by (rule find_rev_None)

lemma lastPoint_Some:
  "lastPoint ev = Some g \<longleftrightarrow>
     (\<exists>pre post. geometry ev = pre @ g # post \<and> g_type g = Point
        \<and> (\<forall>p\<in>set post. g_type p \<noteq> Point))"
  unfolding lastPoint_def by (rule find_rev_Some)

lemma flatMap_append:
  "flatMap f (xs @ ys) =
     (case flatMap f xs of
        Inl e \<Rightarrow> Inl e
      | Inr a \<Rightarrow> (case flatMap f ys of Inl e \<Rightarrow> Inl e | Inr b \<Rightarrow> Inr (a @ b)))"
  by (induction xs) (auto split: sum.splits)

lemma normalizeEvent_not_representable:
  "\<not> representable ev \<Longrightarrow> normalizeEvent ev = Inr []"
  by (auto simp: representable_def normalizeEvent_def split: option.splits)

lemma normalizeEvent_date_unparseable:
  "date_unparseable ev \<Longrightarrow> normalizeEvent ev = Inl (RangeError ''Invalid time value'')"
  by (auto simp: date_unparseable_def normalizeEvent_def format_yyyy_MM_dd_HH_mm_def Let_def
      split: option.splits)

lemma normalizeEvent_error:
  "normalizeEvent ev = Inl e \<Longrightarrow> e = RangeError ''Invalid time value'' \<and> date_unparseable ev"
  by (auto simp: date_unparseable_def normalizeEvent_def format_yyyy_MM_dd_HH_mm_def Let_def
      split: option.splits if_splits js_date.splits)

lemma normalizeEvent_feature:
  assumes "lastPoint ev = Some lp" "isArray (g_coordinates lp)" "g_date lp \<noteq> InvalidDate"
  shows "\<exists>f. normalizeEvent ev = Inr [f] \<and> f_coordinates f = g_coordinates lp
           \<and> p_id (f_properties f) = ev_id ev \<and> p_title (f_properties f) = ev_title ev"
  using assms
  by (auto simp: normalizeEvent_def format_yyyy_MM_dd_HH_mm_def Let_def split: js_date.splits)

lemma normalizeEvent_result:
  assumes "normalizeEvent ev = Inr fs"
  shows "(representable ev \<longrightarrow> (\<exists>f. fs = [f] \<and> p_id (f_properties f) = ev_id ev
             \<and> p_title (f_properties f) = ev_title ev
             \<and> categoryKey (f_properties f) = normalizeCategoryKey (category (f_properties f))
             \<and> color (f_properties f) = category_color (categoryKey (f_properties f))))
       \<and> (\<not> representable ev \<longrightarrow> fs = [])"
  using assms
  by (auto simp: normalizeEvent_def representable_def Let_def split: option.splits if_splits sum.splits)

lemma normalizeEvents_append:
  "normalizeEvents (xs @ ys) =
     (case normalizeEvents xs of
        Inl e \<Rightarrow> Inl e
      | Inr a \<Rightarrow> (case normalizeEvents ys of Inl e \<Rightarrow> Inl e | Inr b \<Rightarrow> Inr (a @ b)))"
  unfolding normalizeEvents_def by (rule flatMap_append)

lemma normalizeEvents_Cons:
  "normalizeEvents (x # xs) =
     (case normalizeEvent x of
        Inl e \<Rightarrow> Inl e
      | Inr a \<Rightarrow> (case normalizeEvents xs of Inl e \<Rightarrow> Inl e | Inr b \<Rightarrow> Inr (a @ b)))"
  unfolding normalizeEvents_def by simp

lemma normalizeEvents_Nil: "normalizeEvents [] = Inr []"
  unfolding normalizeEvents_def by simp

lemma normalizeEvents_skip:
  assumes "normalizeEvent ev = Inr []"
  shows "normalizeEvents (before @ ev # after) = normalizeEvents (before @ after)"
  using assms
  by (simp add: normalizeEvents_append normalizeEvents_Cons split: sum.splits)

lemma normalizeEvents_abort:
  assumes "normalizeEvent ev = Inl e"
  shows "\<exists>e'. normalizeEvents (before @ ev # after) = Inl e'"
  using assms
  by (simp add: normalizeEvents_append normalizeEvents_Cons split: sum.splits)

lemma normalizeEvents_error:
  "normalizeEvents events = Inl e \<Longrightarrow> e = RangeError ''Invalid time value''"
proof (induction events)
  case Nil
  then show ?case by (simp add: normalizeEvents_Nil)
next
  case (Cons x xs)
  then show ?case
    by (auto simp: normalizeEvents_Cons split: sum.splits dest: normalizeEvent_error)
qed

lemma polygon_only_not_representable:
  "\<forall>g\<in>set (geometry ev). g_type g = Polygon \<Longrightarrow> \<not> representable ev"
proof -
  assume "\<forall>g\<in>set (geometry ev). g_type g = Polygon"
  then have "\<forall>g\<in>set (geometry ev). g_type g \<noteq> Point" by auto
  then have "lastPoint ev = None" by (simp add: lastPoint_None)
  then show ?thesis by (simp add: representable_def)
qed

text \<open>
  C3: an event whose geometry sequence holds Polygon entries only yields no feature. The
  normaliser returns the empty list for it, without an exception, and in a batch the
  event leaves the result of the others as it is.
\<close>

theorem polygon_only_event_yields_nothing:
  assumes "\<forall>g\<in>set (geometry ev). g_type g = Polygon"
  shows "normalizeEvent ev = Inr []
       \<and> normalizeEvents [ev] = Inr []
       \<and> normalizeEvents (before @ ev # after) = normalizeEvents (before @ after)"
proof -
  from assms have none: "normalizeEvent ev = Inr []"
    by (intro normalizeEvent_not_representable polygon_only_not_representable)
  then have "normalizeEvents [ev] = Inr []"
    by (simp add: normalizeEvents_Cons normalizeEvents_Nil)
  with none normalizeEvents_skip[OF none] show ?thesis by simp
qed

theorem polygon_only_event_yields_nothing_witness:
  "list_all (\<lambda>g. g_type g = Polygon) (geometry polygon_event)
   \<and> normalizeEvent polygon_event = Inr []
   \<and> normalizeEvents [polygon_event] = Inr []
   \<and> normalizeEvents ([scenario_event] @ polygon_event # [unsorted_event])
       = normalizeEvents ([scenario_event] @ [unsorted_event])"
proof -
  have h: "\<forall>g\<in>set (geometry polygon_event). g_type g = Polygon"
    by (simp add: polygon_event_def)
  then have "list_all (\<lambda>g. g_type g = Polygon) (geometry polygon_event)"
    by (simp add: list_all_iff)
  with polygon_only_event_yields_nothing[OF h, of "[scenario_event]" "[unsorted_event]"]
  show ?thesis by simp
qed

text \<open>
  C9: the features come in the order of the events. When no selected date is unparseable
  the normaliser returns a list, whose members are, one for one and in order, the features
  of the representable events of the input; the identifiers of the features are those of
  these events, so nothing is sorted and nothing is removed for a repeated identifier.
\<close>

theorem normalizeEvents_keeps_order:
  assumes "\<forall>e\<in>set events. \<not> date_unparseable e"
  shows "\<exists>fs. normalizeEvents events = Inr fs
           \<and> list_all2 (\<lambda>f e. normalizeEvent e = Inr [f]) fs (filter representable events)
           \<and> map (\<lambda>f. p_id (f_properties f)) fs = map ev_id (filter representable events)"
  using assms
proof (induction events)
  case Nil
  show ?case by (simp add: normalizeEvents_Nil)
next
  case (Cons x xs)
  then obtain fs where fs: "normalizeEvents xs = Inr fs"
    "list_all2 (\<lambda>f e. normalizeEvent e = Inr [f]) fs (filter representable xs)"
    "map (\<lambda>f. p_id (f_properties f)) fs = map ev_id (filter representable xs)"
    by auto
  from Cons.prems have "\<not> date_unparseable x" by simp
  then obtain r where r: "normalizeEvent x = Inr r"
    using normalizeEvent_error[of x] by (cases "normalizeEvent x") auto
  show ?case
  proof (cases "representable x")
    case True
    with normalizeEvent_result[OF r] obtain f where "r = [f]" "p_id (f_properties f) = ev_id x"
      by auto
    with True r fs show ?thesis by (simp add: normalizeEvents_Cons)
  next
    case False
    with normalizeEvent_result[OF r] have "r = []" by simp
    with False r fs show ?thesis by (simp add: normalizeEvents_Cons)
  qed
qed

lemma sample_not_unparseable:
  "\<not> date_unparseable scenario_event" "\<not> date_unparseable polygon_event"
  "\<not> date_unparseable unsorted_event" "\<not> date_unparseable no_coordinates_event"
  by code_simp+

lemma sample_representable:
  "representable scenario_event" "\<not> representable polygon_event"
  "representable unsorted_event" "\<not> representable no_coordinates_event"
  "representable bad_date_event"
  by code_simp+

theorem normalizeEvents_keeps_order_witness:
  "list_all (\<lambda>e. \<not> date_unparseable e) [scenario_event, polygon_event, scenario_event]
   \<and> (\<exists>fs. normalizeEvents [scenario_event, polygon_event, scenario_event] = Inr fs
         \<and> list_all2 (\<lambda>f e. normalizeEvent e = Inr [f]) fs [scenario_event, scenario_event]
         \<and> map (\<lambda>f. p_id (f_properties f)) fs = [''EONET_1'', ''EONET_1''])"
proof -
  have h: "\<forall>e\<in>set [scenario_event, polygon_event, scenario_event]. \<not> date_unparseable e"
    by (simp add: sample_not_unparseable)
  have f: "filter representable [scenario_event, polygon_event, scenario_event]
           = [scenario_event, scenario_event]"
    by (simp add: sample_representable)
  have i: "ev_id scenario_event = ''EONET_1''"
    by (simp add: scenario_event_def)
  from normalizeEvents_keeps_order[OF h] show ?thesis
    unfolding f by (simp add: sample_not_unparseable i)
qed

lemma chronological_before:
  assumes "chronological (pre @ g # post)" "p \<in> set pre"
  shows "not_later (g_date p) (g_date g)"
  using assms by (auto simp: chronological_def sorted_wrt_append)

lemma last_point_most_recent:
  assumes "geometry ev = pre @ g # post" "g_type g = Point"
    "\<forall>p\<in>set post. g_type p \<noteq> Point" "g_date g \<noteq> InvalidDate"
    "chronological (geometry ev)"
  shows "g \<in> set (most_recent_points (geometry ev))"
proof -
  from assms(4) have refl: "not_later (g_date g) (g_date g)"
    by (cases "g_date g") (simp_all add: not_later_def)
  have "g_type p = Point \<longrightarrow> not_later (g_date p) (g_date g)"
    if "p \<in> set (pre @ g # post)" for p
    using that assms(1,3,5) refl chronological_before[of pre g post p] by auto
  with assms(1,2) show ?thesis
    by (simp add: most_recent_points_def list_all_iff)
qed

text \<open>
  C1, as amended: for an event with at least one Point entry, the normaliser selects the
  Point entry that comes last in the geometry sequence; when its coordinates are an array
  and its date is parseable, the event yields exactly one feature, with the coordinates
  of that entry. The entry is a most recent Point entry when the sequence is in
  chronological order.
\<close>

theorem normalizeEvent_last_point:
  assumes "\<exists>g\<in>set (geometry ev). g_type g = Point"
  shows "\<exists>pre g post.
           geometry ev = pre @ g # post \<and> g_type g = Point
           \<and> (\<forall>p\<in>set post. g_type p \<noteq> Point)
           \<and> (isArray (g_coordinates g) \<and> g_date g \<noteq> InvalidDate \<longrightarrow>
                (\<exists>f. normalizeEvent ev = Inr [f] \<and> f_coordinates f = g_coordinates g)
                \<and> (chronological (geometry ev) \<longrightarrow>
                     g \<in> set (most_recent_points (geometry ev))))"
proof -
  from assms have "lastPoint ev \<noteq> None"
    by (auto simp: lastPoint_None)
  then obtain g where g: "lastPoint ev = Some g" by auto
  then obtain pre post where d: "geometry ev = pre @ g # post" "g_type g = Point"
    "\<forall>p\<in>set post. g_type p \<noteq> Point"
    by (auto simp: lastPoint_Some)
  have "\<exists>f. normalizeEvent ev = Inr [f] \<and> f_coordinates f = g_coordinates g"
    if "isArray (g_coordinates g)" "g_date g \<noteq> InvalidDate"
    using normalizeEvent_feature[OF g that] by blast
  moreover have "g \<in> set (most_recent_points (geometry ev))"
    if "g_date g \<noteq> InvalidDate" "chronological (geometry ev)"
    using last_point_most_recent[OF d that] .
  ultimately show ?thesis using d by blast
qed

theorem normalizeEvent_last_point_witness:
  "list_ex (\<lambda>g. g_type g = Point) (geometry scenario_event)
   \<and> chronological (geometry scenario_event)
   \<and> (\<exists>pre g post.
           geometry scenario_event = pre @ g # post \<and> g_type g = Point
           \<and> (\<forall>p\<in>set post. g_type p \<noteq> Point)
           \<and> (isArray (g_coordinates g) \<and> g_date g \<noteq> InvalidDate \<longrightarrow>
                (\<exists>f. normalizeEvent scenario_event = Inr [f]
                      \<and> f_coordinates f = g_coordinates g)
                \<and> (chronological (geometry scenario_event) \<longrightarrow>
                     g \<in> set (most_recent_points (geometry scenario_event)))))
   \<and> shown_coordinates (normalizeEvent scenario_event) = Some [NumberArray [11, 21]]
   \<and> map g_coordinates (most_recent_points (geometry scenario_event)) = [NumberArray [11, 21]]"
proof -
  have h: "\<exists>g\<in>set (geometry scenario_event). g_type g = Point"
    by (simp add: scenario_event_def point_jan_01_def)
  then have "list_ex (\<lambda>g. g_type g = Point) (geometry scenario_event)"
    by (simp add: list_ex_iff)
  moreover have "chronological (geometry scenario_event)"
    by code_simp
  moreover have "shown_coordinates (normalizeEvent scenario_event) = Some [NumberArray [11, 21]]"
    by code_simp
  moreover have "map g_coordinates (most_recent_points (geometry scenario_event))
      = [NumberArray [11, 21]]"
    by code_simp
  ultimately show ?thesis
    using normalizeEvent_last_point[OF h] by blast
qed

text \<open>
  C1 as stated fails on a sequence that is not sorted by date: with the entry of 15
  January before the entry of 1 January, the feature has the coordinates of the entry of
  1 January, and the most recent Point entry is the other one.
\<close>

theorem normalizeEvent_most_recent_counterexample:
  "list_ex (\<lambda>g. g_type g = Point) (geometry unsorted_event)
   \<and> shown_coordinates (normalizeEvent unsorted_event) = Some [NumberArray [10, 20]]
   \<and> map g_coordinates (most_recent_points (geometry unsorted_event)) = [NumberArray [11, 21]]"
  by code_simp

text \<open>
  C2, as amended: an event without a Point entry whose coordinates are an array is left
  out, and the batch gives what it gives without that event. An event whose selected
  entry has an unparseable date is not left out: formatting the date raises, and the
  batch as a whole ends with that exception and no feature list.
\<close>

theorem malformed_event_handling:
  "(\<not> representable ev \<longrightarrow>
      normalizeEvents (before @ ev # after) = normalizeEvents (before @ after))
   \<and> (date_unparseable ev \<longrightarrow>
      normalizeEvents (before @ ev # after) = Inl (RangeError ''Invalid time value''))"
proof -
  have "normalizeEvents (before @ ev # after) = normalizeEvents (before @ after)"
    if "\<not> representable ev"
    using that by (intro normalizeEvents_skip normalizeEvent_not_representable)
  moreover have "normalizeEvents (before @ ev # after) = Inl (RangeError ''Invalid time value'')"
    if "date_unparseable ev"
  proof -
    from that have "normalizeEvent ev = Inl (RangeError ''Invalid time value'')"
      by (rule normalizeEvent_date_unparseable)
    then obtain e where e: "normalizeEvents (before @ ev # after) = Inl e"
      using normalizeEvents_abort by blast
    with normalizeEvents_error[OF e] show ?thesis by simp
  qed
  ultimately show ?thesis by blast
qed

theorem malformed_event_handling_witness:
  "\<not> representable no_coordinates_event
   \<and> normalizeEvents ([scenario_event] @ no_coordinates_event # [unsorted_event])
       = normalizeEvents ([scenario_event] @ [unsorted_event])
   \<and> date_unparseable bad_date_event
   \<and> normalizeEvents ([scenario_event] @ bad_date_event # [unsorted_event])
       = Inl (RangeError ''Invalid time value'')"
proof -
  have a: "\<not> representable no_coordinates_event" by code_simp
  have b: "date_unparseable bad_date_event" by code_simp
  from a b
    malformed_event_handling[of no_coordinates_event "[scenario_event]" "[unsorted_event]"]
    malformed_event_handling[of bad_date_event "[scenario_event]" "[unsorted_event]"]
  show ?thesis by blast
qed

text \<open>
  C2 as stated fails for an unparseable date: two well-formed events give their two
  features, and the same two events with a bad-date event between them give no feature
  list at all.
\<close>

theorem malformed_date_aborts_batch_counterexample:
  "shown_ids (normalizeEvents [scenario_event, unsorted_event]) = Some [''EONET_1'', ''EONET_2'']
   \<and> shown_ids (normalizeEvents [scenario_event, bad_date_event, unsorted_event]) = None"
  by code_simp

lemma camel_case_not_key:
  assumes "c \<in> set k" "is_uppercase c"
  shows "normalizeCategoryKey title \<noteq> k"
  using assms normalizeCategoryKey_lowercase by blast

text \<open>
  C10: a category key has no uppercase letter, so it is none of the palette's names
  \<^verbatim>\<open>severeStorms\<close>, \<^verbatim>\<open>seaLakeIce\<close>, \<^verbatim>\<open>dustHaze\<close> and \<^verbatim>\<open>waterColor\<close>; the title
  \<^verbatim>\<open>"Severe Storms"\<close> gives the key \<^verbatim>\<open>severestorms\<close>; and a feature whose category gives
  one of the keys \<^verbatim>\<open>severestorms\<close>, \<^verbatim>\<open>sealakeice\<close>, \<^verbatim>\<open>dusthaze\<close>, \<^verbatim>\<open>watercolor\<close> has the
  default colour \<^verbatim>\<open>#7aa2ff\<close>.
\<close>

theorem multi_word_categories_get_default_color:
  "(\<forall>c\<in>set (normalizeCategoryKey title). \<not> is_uppercase c)
   \<and> normalizeCategoryKey title \<notin> {''severeStorms'', ''seaLakeIce'', ''dustHaze'', ''waterColor''}
   \<and> normalizeCategoryKey ''Severe Storms'' = ''severestorms''
   \<and> (normalizeEvent ev = Inr [f]
        \<and> normalizeCategoryKey (category (f_properties f))
            \<in> {''severestorms'', ''sealakeice'', ''dusthaze'', ''watercolor''}
      \<longrightarrow> categoryKey (f_properties f) = normalizeCategoryKey (category (f_properties f))
          \<and> color (f_properties f) = Str ''#7aa2ff'')"
proof -
  have up: "is_uppercase CHR ''S''" "is_uppercase CHR ''L''" "is_uppercase CHR ''H''"
    "is_uppercase CHR ''C''"
    by code_simp+
  have "normalizeCategoryKey title \<noteq> ''severeStorms''"
    by (rule camel_case_not_key[of "CHR ''S''"]) (simp_all add: up)
  moreover have "normalizeCategoryKey title \<noteq> ''seaLakeIce''"
    by (rule camel_case_not_key[of "CHR ''L''"]) (simp_all add: up)
  moreover have "normalizeCategoryKey title \<noteq> ''dustHaze''"
    by (rule camel_case_not_key[of "CHR ''H''"]) (simp_all add: up)
  moreover have "normalizeCategoryKey title \<noteq> ''waterColor''"
    by (rule camel_case_not_key[of "CHR ''C''"]) (simp_all add: up)
  moreover have "normalizeCategoryKey ''Severe Storms'' = ''severestorms''"
    by code_simp
  moreover have col: "category_color ''severestorms'' = Str ''#7aa2ff''"
    "category_color ''sealakeice'' = Str ''#7aa2ff''"
    "category_color ''dusthaze'' = Str ''#7aa2ff''"
    "category_color ''watercolor'' = Str ''#7aa2ff''"
    by code_simp+
  have "categoryKey (f_properties f) = normalizeCategoryKey (category (f_properties f))
          \<and> color (f_properties f) = Str ''#7aa2ff''"
    if r: "normalizeEvent ev = Inr [f]"
      and k: "normalizeCategoryKey (category (f_properties f))
            \<in> {''severestorms'', ''sealakeice'', ''dusthaze'', ''watercolor''}"
  proof -
    from normalizeEvent_result[OF r]
    have "categoryKey (f_properties f) = normalizeCategoryKey (category (f_properties f))"
      and "color (f_properties f) = category_color (categoryKey (f_properties f))"
      by (cases "representable ev"; simp)+
    with k col show ?thesis by auto
  qed
  ultimately show ?thesis
    using normalizeCategoryKey_lowercase by blast
qed

theorem multi_word_categories_get_default_color_witness:
  "list_all (\<lambda>c. \<not> is_uppercase c) (normalizeCategoryKey ''Severe Storms'')
   \<and> normalizeCategoryKey ''Severe Storms'' \<noteq> ''severeStorms''
   \<and> normalizeEvent scenario_event = Inr [scenario_feature]
   \<and> category (f_properties scenario_feature) = ''Severe Storms''
   \<and> categoryKey (f_properties scenario_feature) = ''severestorms''
   \<and> color (f_properties scenario_feature) = Str ''#7aa2ff''"
proof -
  have n: "normalizeEvent scenario_event = Inr [scenario_feature]"
    by (rule scenario_normalized)
  have c: "category (f_properties scenario_feature) = ''Severe Storms''"
    by (simp add: scenario_feature_def)
  have k: "normalizeCategoryKey ''Severe Storms'' = ''severestorms''"
    by code_simp
  from multi_word_categories_get_default_color
         [of "''Severe Storms''" scenario_event scenario_feature] n c k
  show ?thesis by (simp add: list_all_iff)
qed

section \<open>Properties of the query builder\<close>

lemma digits_chars: "c \<in> set (digits n) \<Longrightarrow> 48 \<le> code_unit c \<and> code_unit c \<le> 57"
proof (induction n rule: digits.induct)
  case (1 n)
  show ?case
  proof (cases "n < 10")
    case True
    with "1.prems" have "c = char_of (48 + n)"
      by (simp add: digits.simps[of n])
    with True show ?thesis by (simp add: code_unit_char_of)
  next
    case False
    with "1.prems" have "c \<in> set (digits (n div 10)) \<or> c = char_of (48 + n mod 10)"
      by (auto simp add: digits.simps[of n])
    then show ?thesis
    proof
      assume "c \<in> set (digits (n div 10))"
      with False "1.IH" show ?thesis by simp
    next
      assume "c = char_of (48 + n mod 10)"
      moreover have "n mod 10 < 10" by simp
      ultimately show ?thesis by (simp add: code_unit_char_of)
    qed
  qed
qed

lemma addLeadingZeros_chars:
  "c \<in> set (addLeadingZeros n w) \<Longrightarrow> 48 \<le> code_unit c \<and> code_unit c \<le> 57"
  using digits_chars[of c n]
  by (auto simp: addLeadingZeros_def code_unit_def)

lemma format_yyyy_MM_dd_chars:
  assumes "format_yyyy_MM_dd d = Inr s" "c \<in> set s"
  shows "(48 \<le> code_unit c \<and> code_unit c \<le> 57) \<or> code_unit c = 45"
  using assms addLeadingZeros_chars[of c]
  by (auto simp: format_yyyy_MM_dd_def code_unit_def split: js_date.splits)

lemma format_yyyy_MM_dd_valid:
  "d \<noteq> InvalidDate \<Longrightarrow> \<exists>s. format_yyyy_MM_dd d = Inr s"
  by (cases d) (simp_all add: format_yyyy_MM_dd_def)

lemma urlencode_char_plain:
  assumes "(48 \<le> code_unit c \<and> code_unit c \<le> 57) \<or> code_unit c = 45"
  shows "urlencode_char c = [c]"
proof -
  have "code_unit CHR ''-'' = 45" by (simp add: code_unit_def)
  then have "c = CHR ''-''" if "code_unit c = 45"
    using that by (metis char_of_code_unit)
  with assms show ?thesis
    by (auto simp: urlencode_char_def is_alphanumeric_def Let_def)
qed

lemma urlencode_plain:
  assumes "\<forall>c\<in>set s. (48 \<le> code_unit c \<and> code_unit c \<le> 57) \<or> code_unit c = 45"
  shows "urlencode s = s"
  using assms by (induction s) (simp_all add: urlencode_def urlencode_char_plain)

lemma urlencode_names:
  "urlencode ''status'' = ''status''" "urlencode ''open'' = ''open''"
  "urlencode ''start'' = ''start''" "urlencode ''end'' = ''end''"
  "urlencode ''category'' = ''category''" "urlencode ''limit'' = ''limit''"
  "urlencode ''250'' = ''250''"
  by code_simp+

lemma query_params_valid:
  assumes "format_yyyy_MM_dd (range_start st) = Inr s" "format_yyyy_MM_dd (range_end st) = Inr e"
  shows "query_params st =
           Inr ([(''status'', ''open''), (''start'', s), (''end'', e)]
                @ (if selectedCategory st \<noteq> [] then [(''category'', selectedCategory st)] else [])
                @ [(''limit'', ''250'')])"
  using assms by (simp add: query_params_def Let_def)

lemma queryUrl_valid:
  assumes "format_yyyy_MM_dd (range_start st) = Inr s" "format_yyyy_MM_dd (range_end st) = Inr e"
  shows "queryUrl st =
           Inr (EONET_BASE @ ''/events?status=open&start='' @ s @ ''&end='' @ e
                @ (if selectedCategory st \<noteq> []
                   then ''&category='' @ urlencode (selectedCategory st) else [])
                @ ''&limit=250'')"
proof -
  have "urlencode s = s" "urlencode e = e"
    using assms format_yyyy_MM_dd_chars by (blast intro: urlencode_plain)+
  then show ?thesis
    using assms
    by (simp add: queryUrl_def query_params_valid params_toString_def urlencode_names)
qed

lemma no_y_no_category:
  assumes "CHR ''y'' \<notin> set url"
  shows "\<not> sublist ''category='' url"
proof
  assume "sublist ''category='' url"
  then have "set ''category='' \<subseteq> set url" by (rule set_mono_sublist)
  with assms show False by simp
qed

lemma queryUrl_without_category:
  assumes "format_yyyy_MM_dd (range_start st) = Inr s" "format_yyyy_MM_dd (range_end st) = Inr e"
    "selectedCategory st = []" "queryUrl st = Inr url"
  shows "\<not> sublist ''category='' url"
proof -
  have y: "code_unit CHR ''y'' = 121" by (simp add: code_unit_def)
  have "CHR ''y'' \<notin> set s" "CHR ''y'' \<notin> set e"
    using assms(1,2) format_yyyy_MM_dd_chars[of _ _ "CHR ''y''"] y by fastforce+
  moreover from assms queryUrl_valid[OF assms(1,2)]
  have "url = EONET_BASE @ ''/events?status=open&start='' @ s @ ''&end='' @ e @ ''&limit=250''"
    by simp
  ultimately have "CHR ''y'' \<notin> set url"
    by (simp add: EONET_BASE_def)
  then show ?thesis by (rule no_y_no_category)
qed

lemma queryUrl_with_category:
  assumes "format_yyyy_MM_dd (range_start st) = Inr s" "format_yyyy_MM_dd (range_end st) = Inr e"
    "selectedCategory st \<noteq> []" "queryUrl st = Inr url"
  shows "sublist ''category='' url"
proof -
  from assms queryUrl_valid[OF assms(1,2)]
  have "url = (EONET_BASE @ ''/events?status=open&start='' @ s @ ''&end='' @ e @ ''&'')
              @ ''category='' @ (urlencode (selectedCategory st) @ ''&limit=250'')"
    by simp
  then show ?thesis by (simp only: sublist_appendI)
qed

text \<open>
  C5: for the filter state with the range 2024-01-01 .. 2024-01-31 and no category the
  URL is the base followed by
  \<^verbatim>\<open>/events?status=open&start=2024-01-01&end=2024-01-31&limit=250\<close>, with no category
  parameter. For every filter state with valid dates the builder returns a URL, and the
  parameter \<^verbatim>\<open>category\<close> is among its parameters, and \<^verbatim>\<open>category=\<close> in its text, if and
  only if the selected category is not empty; the status and the limit are always there.
\<close>

theorem queryUrl_category_parameter:
  "queryUrl scenario_filter =
     Inr ''https://eonet.gsfc.nasa.gov/api/v3/events?status=open&start=2024-01-01&end=2024-01-31&limit=250''
   \<and> sublist ''status=open&start=2024-01-01&end=2024-01-31&limit=250''
         ''https://eonet.gsfc.nasa.gov/api/v3/events?status=open&start=2024-01-01&end=2024-01-31&limit=250''
   \<and> \<not> sublist ''category''
         ''https://eonet.gsfc.nasa.gov/api/v3/events?status=open&start=2024-01-01&end=2024-01-31&limit=250''
   \<and> (range_start st \<noteq> InvalidDate \<and> range_end st \<noteq> InvalidDate \<longrightarrow>
        (\<exists>params url.
           query_params st = Inr params \<and> queryUrl st = Inr url
           \<and> (''category'' \<in> set (map fst params) \<longleftrightarrow> selectedCategory st \<noteq> [])
           \<and> (sublist ''category='' url \<longleftrightarrow> selectedCategory st \<noteq> [])
           \<and> sublist ''status=open'' url
           \<and> suffix ''&limit=250'' url))"
proof -
  have ex: "queryUrl scenario_filter =
     Inr ''https://eonet.gsfc.nasa.gov/api/v3/events?status=open&start=2024-01-01&end=2024-01-31&limit=250''"
    by code_simp
  have sub: "sublist ''status=open&start=2024-01-01&end=2024-01-31&limit=250''
         ''https://eonet.gsfc.nasa.gov/api/v3/events?status=open&start=2024-01-01&end=2024-01-31&limit=250''"
    by code_simp
  have nocat: "\<not> sublist ''category''
         ''https://eonet.gsfc.nasa.gov/api/v3/events?status=open&start=2024-01-01&end=2024-01-31&limit=250''"
    by code_simp
  have gen: "\<exists>params url.
           query_params st = Inr params \<and> queryUrl st = Inr url
           \<and> (''category'' \<in> set (map fst params) \<longleftrightarrow> selectedCategory st \<noteq> [])
           \<and> (sublist ''category='' url \<longleftrightarrow> selectedCategory st \<noteq> [])
           \<and> sublist ''status=open'' url
           \<and> suffix ''&limit=250'' url"
    if v: "range_start st \<noteq> InvalidDate" "range_end st \<noteq> InvalidDate"
  proof -
    from v obtain s e where f: "format_yyyy_MM_dd (range_start st) = Inr s"
      "format_yyyy_MM_dd (range_end st) = Inr e"
      using format_yyyy_MM_dd_valid by blast
    let ?url = "EONET_BASE @ ''/events?status=open&start='' @ s @ ''&end='' @ e
                @ (if selectedCategory st \<noteq> []
                   then ''&category='' @ urlencode (selectedCategory st) else [])
                @ ''&limit=250''"
    have u: "queryUrl st = Inr ?url" by (rule queryUrl_valid[OF f])
    have p: "''category'' \<in> set (map fst
               ([(''status'', ''open''), (''start'', s), (''end'', e)]
                @ (if selectedCategory st \<noteq> [] then [(''category'', selectedCategory st)] else [])
                @ [(''limit'', ''250'')])) \<longleftrightarrow> selectedCategory st \<noteq> []"
      by auto
    have c: "sublist ''category='' ?url \<longleftrightarrow> selectedCategory st \<noteq> []"
      using queryUrl_without_category[OF f _ u] queryUrl_with_category[OF f _ u] by blast
    have "?url = (EONET_BASE @ ''/events?'') @ ''status=open'' @ (''&start='' @ s @ ''&end='' @ e
                @ (if selectedCategory st \<noteq> []
                   then ''&category='' @ urlencode (selectedCategory st) else [])
                @ ''&limit=250'')"
      by simp
    then have so: "sublist ''status=open'' ?url" by (simp only: sublist_appendI)
    have "?url = (EONET_BASE @ ''/events?status=open&start='' @ s @ ''&end='' @ e
                @ (if selectedCategory st \<noteq> []
                   then ''&category='' @ urlencode (selectedCategory st) else []))
                @ ''&limit=250''"
      by simp
    then have li: "suffix ''&limit=250'' ?url" by (simp only: suffix_def) blast
    show ?thesis
    proof (intro exI conjI)
      show "query_params st = Inr ([(''status'', ''open''), (''start'', s), (''end'', e)]
                @ (if selectedCategory st \<noteq> [] then [(''category'', selectedCategory st)] else [])
                @ [(''limit'', ''250'')])"
        by (rule query_params_valid[OF f])
      show "queryUrl st = Inr ?url" by (rule u)
    qed (rule p c so li)+
  qed
  show ?thesis
  proof (intro conjI impI)
    show "queryUrl scenario_filter =
     Inr ''https://eonet.gsfc.nasa.gov/api/v3/events?status=open&start=2024-01-01&end=2024-01-31&limit=250''"
      by (rule ex)
  next
    show "sublist ''status=open&start=2024-01-01&end=2024-01-31&limit=250''
         ''https://eonet.gsfc.nasa.gov/api/v3/events?status=open&start=2024-01-01&end=2024-01-31&limit=250''"
      by (rule sub)
  next
    show "\<not> sublist ''category''
         ''https://eonet.gsfc.nasa.gov/api/v3/events?status=open&start=2024-01-01&end=2024-01-31&limit=250''"
      by (rule nocat)
  next
    assume "range_start st \<noteq> InvalidDate \<and> range_end st \<noteq> InvalidDate"
    then have "range_start st \<noteq> InvalidDate" "range_end st \<noteq> InvalidDate" by simp_all
    then show "\<exists>params url.
           query_params st = Inr params \<and> queryUrl st = Inr url
           \<and> (''category'' \<in> set (map fst params) \<longleftrightarrow> selectedCategory st \<noteq> [])
           \<and> (sublist ''category='' url \<longleftrightarrow> selectedCategory st \<noteq> [])
           \<and> sublist ''status=open'' url
           \<and> suffix ''&limit=250'' url"
      by (rule gen)
  qed
qed

theorem queryUrl_category_parameter_witness:
  "range_start wildfire_filter \<noteq> InvalidDate
   \<and> range_end wildfire_filter \<noteq> InvalidDate
   \<and> (\<exists>params url.
         query_params wildfire_filter
           = Inr params
         \<and> queryUrl wildfire_filter
           = Inr url
         \<and> ''category'' \<in> set (map fst params)
         \<and> sublist ''category='' url
         \<and> sublist ''status=open'' url
         \<and> suffix ''&limit=250'' url)"
proof -
  let ?st = "wildfire_filter"
  have v: "range_start ?st \<noteq> InvalidDate" "range_end ?st \<noteq> InvalidDate"
    by (simp_all add: wildfire_filter_def jan_01_def jan_31_def)
  have c: "selectedCategory ?st \<noteq> []" by (simp add: wildfire_filter_def)
  from queryUrl_category_parameter[of ?st] v
  have "\<exists>params url.
         query_params ?st = Inr params \<and> queryUrl ?st = Inr url
         \<and> (''category'' \<in> set (map fst params) \<longleftrightarrow> selectedCategory ?st \<noteq> [])
         \<and> (sublist ''category='' url \<longleftrightarrow> selectedCategory ?st \<noteq> [])
         \<and> sublist ''status=open'' url
         \<and> suffix ''&limit=250'' url"
    by (elim conjE impE) (rule conjI; assumption)
  then obtain params url where
    "query_params ?st = Inr params" "queryUrl ?st = Inr url"
    "''category'' \<in> set (map fst params) \<longleftrightarrow> selectedCategory ?st \<noteq> []"
    "sublist ''category='' url \<longleftrightarrow> selectedCategory ?st \<noteq> []"
    "sublist ''status=open'' url" "suffix ''&limit=250'' url"
    by (elim exE conjE)
  with c have "query_params ?st = Inr params \<and> queryUrl ?st = Inr url
         \<and> ''category'' \<in> set (map fst params)
         \<and> sublist ''category='' url
         \<and> sublist ''status=open'' url
         \<and> suffix ''&limit=250'' url"
    by (simp only: simp_thms)
  then have "\<exists>params url. query_params ?st = Inr params \<and> queryUrl ?st = Inr url
         \<and> ''category'' \<in> set (map fst params)
         \<and> sublist ''category='' url
         \<and> sublist ''status=open'' url
         \<and> suffix ''&limit=250'' url"
    by (intro exI)
  with v show ?thesis by (intro conjI)
qed

section \<open>Properties of fetching and presenting\<close>








lemma on_rejected_frame:
  "mapRef (on_rejected st err) = mapRef st \<and> eventCount (on_rejected st err) = eventCount st
   \<and> loading (on_rejected st err) = loading st
   \<and> error (on_rejected st err)
       = Some (if message err = [] then ''Falha ao carregar dados'' else message err)"
  by (simp add: on_rejected_def)

lemma failure_fetchJson:
  "transport_or_parse_failure outcome \<longleftrightarrow> (\<exists>err. fetchJson outcome = Inl err)"
  by (auto simp: transport_or_parse_failure_def fetchJson_def
      split: fetch_outcome.splits response_body.splits)

text \<open>
  C7: when the fetch is rejected, answers with a status outside 200 .. 299, or answers
  with a body that is not JSON, the effect leaves the map as it was (the data of the source
  and the viewport requests) and the event count too, and sets the error to the message
  of the exception, or to \<^verbatim>\<open>Falha ao carregar dados\<close> when that message is empty: an
  error message is set and is not empty.
\<close>

theorem fetch_failure_keeps_source:
  assumes "transport_or_parse_failure outcome"
  shows "mapRef (load_events st outcome) = mapRef st
       \<and> eventCount (load_events st outcome) = eventCount st
       \<and> (mapRef st \<noteq> None \<longrightarrow>
            (\<exists>err. fetchJson outcome = Inl err
               \<and> error (load_events st outcome)
                   = Some (if message err = [] then ''Falha ao carregar dados'' else message err))
            \<and> error (load_events st outcome) \<noteq> None
            \<and> error (load_events st outcome) \<noteq> Some []
            \<and> \<not> loading (load_events st outcome))"
proof -
  from assms obtain err where err: "fetchJson outcome = Inl err"
    by (auto simp: failure_fetchJson)
  show ?thesis
  proof (cases "mapRef st")
    case None
    then show ?thesis by (simp add: load_events_def)
  next
    case (Some m)
    with err have "load_events st outcome
        = (on_rejected (st\<lparr>loading := True, error := None\<rparr>) err)\<lparr>loading := False\<rparr>"
      by (simp add: load_events_def)
    with Some err show ?thesis by (simp add: on_rejected_def)
  qed
qed

theorem fetch_failure_keeps_source_witness:
  "transport_or_parse_failure (Response 404 (Json []))
   \<and> transport_or_parse_failure (Rejected (TypeError ''Failed to fetch''))
   \<and> mapRef (load_events showing_scenario (Response 404 (Json []))) = mapRef showing_scenario
   \<and> mapRef showing_scenario = Some \<lparr>source_data = [scenario_feature], fit_requests = []\<rparr>
   \<and> error (load_events showing_scenario (Response 404 (Json []))) = Some ''HTTP 404''
   \<and> mapRef (load_events showing_scenario (Rejected (TypeError ''Failed to fetch'')))
       = mapRef showing_scenario
   \<and> error (load_events showing_scenario (Rejected (TypeError ''Failed to fetch'')))
       = Some ''Failed to fetch''"
proof -
  have a: "transport_or_parse_failure (Response 404 (Json []))"
    by (simp add: transport_or_parse_failure_def)
  have b: "transport_or_parse_failure (Rejected (TypeError ''Failed to fetch''))"
    by (simp add: transport_or_parse_failure_def)
  have m: "mapRef showing_scenario = Some \<lparr>source_data = [scenario_feature], fit_requests = []\<rparr>"
    by (simp add: showing_scenario_def)
  have d: "digits 404 = ''404''" by code_simp
  have fa: "fetchJson (Response 404 (Json [])) = Inl (Error ''HTTP 404'')"
    by (simp add: fetchJson_def d)
  have fb: "fetchJson (Rejected (TypeError ''Failed to fetch'')) = Inl (TypeError ''Failed to fetch'')"
    by (simp add: fetchJson_def)
  from fetch_failure_keeps_source[OF a, of showing_scenario]
       fetch_failure_keeps_source[OF b, of showing_scenario] a b m fa fb
  show ?thesis by simp
qed





section \<open>Properties of the tile URL\<close>

text \<open>
  C6: the tile URL is a function of the layer and the date alone. It holds
  \<^verbatim>\<open>layer=\<close> followed by the layer and \<^verbatim>\<open>time=\<close> followed by the date, and it ends with
  the tile coordinates as the literal placeholders \<^verbatim>\<open>{z}\<close>, \<^verbatim>\<open>{y}\<close> and \<^verbatim>\<open>{x}\<close>; for the
  layer \<^verbatim>\<open>VIIRS_SNPP_CorrectedReflectance_TrueColor\<close> and the date \<^verbatim>\<open>2024-06-01\<close> it is the
  URL below.
\<close>

theorem buildTileUrl_keeps_placeholders:
  "sublist (''layer='' @ layer) (buildTileUrl layer date)
   \<and> sublist (''time='' @ date) (buildTileUrl layer date)
   \<and> suffix ''&tilematrix={z}&tilerow={y}&tilecol={x}'' (buildTileUrl layer date)
   \<and> buildTileUrl ''VIIRS_SNPP_CorrectedReflectance_TrueColor'' ''2024-06-01'' =
       ''https://gibs.earthdata.nasa.gov/wmts/epsg3857/best/wmts.cgi?service=WMTS&request=GetTile&version=1.0.0&layer=VIIRS_SNPP_CorrectedReflectance_TrueColor&style=default&tilematrixset=GoogleMapsCompatible_Level&format=image%2Fjpeg&time=2024-06-01&tilematrix={z}&tilerow={y}&tilecol={x}''
   \<and> sublist ''layer=VIIRS_SNPP_CorrectedReflectance_TrueColor''
         (buildTileUrl ''VIIRS_SNPP_CorrectedReflectance_TrueColor'' ''2024-06-01'')
   \<and> sublist ''time=2024-06-01''
         (buildTileUrl ''VIIRS_SNPP_CorrectedReflectance_TrueColor'' ''2024-06-01'')
   \<and> sublist ''{z}'' (buildTileUrl ''VIIRS_SNPP_CorrectedReflectance_TrueColor'' ''2024-06-01'')
   \<and> sublist ''{y}'' (buildTileUrl ''VIIRS_SNPP_CorrectedReflectance_TrueColor'' ''2024-06-01'')
   \<and> sublist ''{x}'' (buildTileUrl ''VIIRS_SNPP_CorrectedReflectance_TrueColor'' ''2024-06-01'')"
proof -
  have l: "sublist (''layer='' @ layer) (buildTileUrl layer date)" for layer date
  proof -
    have "buildTileUrl layer date =
        (GIBS_ENDPOINT @ ''?service=WMTS&request=GetTile&version=1.0.0&'') @ (''layer='' @ layer)
        @ (''&style=default&tilematrixset=GoogleMapsCompatible_Level&format=image%2Fjpeg&time=''
           @ date @ ''&tilematrix={z}&tilerow={y}&tilecol={x}'')"
      by (simp add: buildTileUrl_def)
    then show ?thesis by (simp only: sublist_appendI)
  qed
  have t: "sublist (''time='' @ date) (buildTileUrl layer date)" for layer date
  proof -
    have "buildTileUrl layer date =
        (GIBS_ENDPOINT @ ''?service=WMTS&request=GetTile&version=1.0.0&layer='' @ layer
           @ ''&style=default&tilematrixset=GoogleMapsCompatible_Level&format=image%2Fjpeg&'')
        @ (''time='' @ date) @ ''&tilematrix={z}&tilerow={y}&tilecol={x}''"
      by (simp add: buildTileUrl_def)
    then show ?thesis by (simp only: sublist_appendI)
  qed
  have s: "suffix ''&tilematrix={z}&tilerow={y}&tilecol={x}'' (buildTileUrl layer date)"
    for layer date
    unfolding buildTileUrl_def suffix_def by (metis append.assoc)
  have z: "sublist ''{z}'' (buildTileUrl layer date)" for layer date
  proof -
    have "buildTileUrl layer date =
        (GIBS_ENDPOINT @ ''?service=WMTS&request=GetTile&version=1.0.0&layer='' @ layer
           @ ''&style=default&tilematrixset=GoogleMapsCompatible_Level&format=image%2Fjpeg&time=''
           @ date @ ''&tilematrix='')
        @ ''{z}'' @ ''&tilerow={y}&tilecol={x}''"
      by (simp add: buildTileUrl_def)
    then show ?thesis by (simp only: sublist_appendI)
  qed
  have y: "sublist ''{y}'' (buildTileUrl layer date)" for layer date
  proof -
    have "buildTileUrl layer date =
        (GIBS_ENDPOINT @ ''?service=WMTS&request=GetTile&version=1.0.0&layer='' @ layer
           @ ''&style=default&tilematrixset=GoogleMapsCompatible_Level&format=image%2Fjpeg&time=''
           @ date @ ''&tilematrix={z}&tilerow='')
        @ ''{y}'' @ ''&tilecol={x}''"
      by (simp add: buildTileUrl_def)
    then show ?thesis by (simp only: sublist_appendI)
  qed
  have x: "sublist ''{x}'' (buildTileUrl layer date)" for layer date
  proof -
    have "buildTileUrl layer date =
        (GIBS_ENDPOINT @ ''?service=WMTS&request=GetTile&version=1.0.0&layer='' @ layer
           @ ''&style=default&tilematrixset=GoogleMapsCompatible_Level&format=image%2Fjpeg&time=''
           @ date @ ''&tilematrix={z}&tilerow={y}&tilecol='')
        @ ''{x}'' @ []"
      by (simp add: buildTileUrl_def)
    then show ?thesis by (simp only: sublist_appendI)
  qed
  have e: "buildTileUrl ''VIIRS_SNPP_CorrectedReflectance_TrueColor'' ''2024-06-01'' =
       ''https://gibs.earthdata.nasa.gov/wmts/epsg3857/best/wmts.cgi?service=WMTS&request=GetTile&version=1.0.0&layer=VIIRS_SNPP_CorrectedReflectance_TrueColor&style=default&tilematrixset=GoogleMapsCompatible_Level&format=image%2Fjpeg&time=2024-06-01&tilematrix={z}&tilerow={y}&tilecol={x}''"
    by (simp add: buildTileUrl_def GIBS_ENDPOINT_def)
  have l': "sublist ''layer=VIIRS_SNPP_CorrectedReflectance_TrueColor''
         (buildTileUrl ''VIIRS_SNPP_CorrectedReflectance_TrueColor'' ''2024-06-01'')"
    using l[of "''VIIRS_SNPP_CorrectedReflectance_TrueColor''" "''2024-06-01''"] by simp
  have t': "sublist ''time=2024-06-01''
         (buildTileUrl ''VIIRS_SNPP_CorrectedReflectance_TrueColor'' ''2024-06-01'')"
    using t[of "''2024-06-01''" "''VIIRS_SNPP_CorrectedReflectance_TrueColor''"] by simp
  from l t s e l' t' z y x show ?thesis by blast
qed

end
